theory Spec2Isabelle
  imports Main
begin

section \<open>Persistence: the tables of shared/schema.ts\<close>

text \<open>
  Every table is the list of its rows, in insertion order. An id is an integer; the id
  columns and the \<^verbatim>\<open>votes\<close> column are \<^verbatim>\<open>integer\<close> columns, whose values lie in the
  32-bit signed range. A timestamp is the millisecond count that \<^verbatim>\<open>new Date()\<close> reads, a
  nullable column is an \<open>option\<close>. Only the columns that the relay and the vote toggle
  read or write are kept for users and groups.
\<close>

definition int4 :: "int \<Rightarrow> bool" where
  "int4 x = (- 2147483648 \<le> x \<and> x \<le> 2147483647)"

text \<open>A query parameter that is null is in range; a number must fit the column.\<close>

definition int4Param :: "int option \<Rightarrow> bool" where
  "int4Param p = (case p of None \<Rightarrow> True | Some x \<Rightarrow> int4 x)"

record user =
  user_id :: int
  username :: string

record groupChat =
  group_id :: int
  groupName :: string
  ownerId :: int

record groupMember =
  member_id :: int
  member_groupId :: int
  member_userId :: int
  joinedAt :: nat

record message =
  message_id :: int
  fromUserId :: int
  toUserId :: "int option"
  groupId :: "int option"
  content :: string
  timestamp :: nat
  isRead :: bool
  readAt :: "nat option"
  messageType :: string

text \<open>
  The object that the relay hands to \<^verbatim>\<open>createMessage\<close>. Its fields come from the inbound
  frame unchecked, so the sender and the content may be null or absent as well.
\<close>

record messageValues =
  new_fromUserId :: "int option"
  new_toUserId :: "int option"
  new_groupId :: "int option"
  new_content :: "string option"
  new_timestamp :: nat
  new_isRead :: bool
  new_readAt :: "nat option"
  new_type :: string

record idea =
  idea_id :: int
  gameId :: int
  idea_userId :: int
  title :: string
  description :: string
  votes :: int
  createdAt :: nat

record ideaVote =
  vote_id :: int
  vote_ideaId :: int
  vote_userId :: int
  vote_createdAt :: nat

text \<open>
  The database: the tables and the two serial counters that the modelled inserts draw
  their ids from. A counter is not part of a transaction: an insert that is rejected after
  it drew its id, or that is rolled back, leaves the counter advanced.
\<close>

record database =
  users :: "user list"
  groups :: "groupChat list"
  groupMembers :: "groupMember list"
  messages :: "message list"
  messages_id_seq :: int
  ideas :: "idea list"
  ideaVotes :: "ideaVote list"
  ideaVotes_id_seq :: int

datatype error = OutOfRange | NotNullViolation | ForeignKeyViolation | IdeaNotFound

definition userExists :: "database \<Rightarrow> int \<Rightarrow> bool" where
  "userExists db u = (u \<in> set (map user_id (users db)))"

definition groupExists :: "database \<Rightarrow> int \<Rightarrow> bool" where
  "groupExists db g = (g \<in> set (map group_id (groups db)))"


text \<open>
  The references of the \<^verbatim>\<open>messages\<close> table: \<^verbatim>\<open>fromUserId\<close> and a non-null \<^verbatim>\<open>toUserId\<close>
  point at a user, a non-null \<^verbatim>\<open>groupId\<close> at a group. No constraint relates \<^verbatim>\<open>toUserId\<close> and
  \<^verbatim>\<open>groupId\<close>: both are nullable columns.
\<close>

definition messageReferencesOk :: "database \<Rightarrow> int \<Rightarrow> int option \<Rightarrow> int option \<Rightarrow> bool" where
  "messageReferencesOk db sender recipient g =
     (userExists db sender
      \<and> (case recipient of None \<Rightarrow> True | Some u \<Rightarrow> userExists db u)
      \<and> (case g of None \<Rightarrow> True | Some x \<Rightarrow> groupExists db x))"

section \<open>server/storage.ts\<close>

text \<open>
  Every storage call returns an \<open>error + result\<close>: \<open>Inl\<close> is the exception that the
  database driver throws. A number outside the range of an \<^verbatim>\<open>integer\<close> column makes the
  statement fail before it runs.

  \<^verbatim>\<open>createMessage\<close> inserts the values and returns the created row: the id comes from the
  serial counter, every other column is as given. The insert is rejected when the
  sender or the content is null (both columns are \<^verbatim>\<open>NOT NULL\<close>) and when a reference is
  broken; a rejected insert leaves the tables as they were.
\<close>

definition createMessage :: "database \<Rightarrow> messageValues \<Rightarrow> (error + message) \<times> database" where
  "createMessage db v =
     (if \<not> (int4Param (new_fromUserId v) \<and> int4Param (new_toUserId v)
             \<and> int4Param (new_groupId v))
      then (Inl OutOfRange, db)
      else
        case (new_fromUserId v, new_content v) of
          (Some sender, Some text) \<Rightarrow>
            if messageReferencesOk db sender (new_toUserId v) (new_groupId v) then
              (let createdMessage =
                     \<lparr>message_id = messages_id_seq db, fromUserId = sender,
                      toUserId = new_toUserId v, groupId = new_groupId v, content = text,
                      timestamp = new_timestamp v, isRead = new_isRead v,
                      readAt = new_readAt v, messageType = new_type v\<rparr>
               in (Inr createdMessage,
                   db\<lparr>messages := messages db @ [createdMessage],
                      messages_id_seq := messages_id_seq db + 1\<rparr>))
            else (Inl ForeignKeyViolation, db\<lparr>messages_id_seq := messages_id_seq db + 1\<rparr>)
        | _ \<Rightarrow> (Inl NotNullViolation, db\<lparr>messages_id_seq := messages_id_seq db + 1\<rparr>))"

text \<open>
  \<^verbatim>\<open>isGroupMember\<close> selects the membership rows of the group and the user. A null
  parameter compares equal to no row.
\<close>

definition isMembership :: "int option \<Rightarrow> int option \<Rightarrow> groupMember \<Rightarrow> bool" where
  "isMembership g u m = (Some (member_groupId m) = g \<and> Some (member_userId m) = u)"

definition isGroupMember :: "database \<Rightarrow> int option \<Rightarrow> int option \<Rightarrow> error + bool" where
  "isGroupMember db g u =
     (if int4Param g \<and> int4Param u
      then Inr (filter (isMembership g u) (groupMembers db) \<noteq> [])
      else Inl OutOfRange)"

definition getGroupMembers :: "database \<Rightarrow> int option \<Rightarrow> error + user list" where
  "getGroupMembers db g =
     (if int4Param g then
        (let memberships =
               map member_userId (filter (\<lambda>m. Some (member_groupId m) = g) (groupMembers db))
         in if memberships = [] then Inr []
            else Inr (filter (\<lambda>u. user_id u \<in> set memberships) (users db)))
      else Inl OutOfRange)"

section \<open>server/storage.ts: the vote toggle\<close>










section \<open>server/websocket.ts\<close>

type_synonym socket = nat

datatype readyState = CONNECTING | OPEN | CLOSING | CLOSED

text \<open>
  The inbound frames. The handler casts the output of \<^verbatim>\<open>JSON.parse\<close> to \<^verbatim>\<open>WSMessage\<close>
  without a check, so every field of a frame may be null or absent (\<open>None\<close>); a number
  field that is present holds an integer (fractions, and values of another JSON type in
  a number field, are left out). \<open>OtherMessage\<close> is a frame whose \<^verbatim>\<open>type\<close> is none of the
  four that the handler knows. Text that is not JSON makes \<^verbatim>\<open>JSON.parse\<close> throw before the
  handler does anything, so it is no step of the relay.
\<close>

datatype WSMessage =
    DirectChatMessage "int option" "int option" "string option"
  | GroupChatMessage "int option" "int option" "string option"
  | TypingStatus "int option" "int option" "bool option"
  | GroupTypingStatus "int option" "int option" "bool option"
  | OtherMessage "int option"

text \<open>
  An outbound frame is the JSON text handed to \<^verbatim>\<open>send\<close>: a message row (its \<^verbatim>\<open>type\<close>
  field is the row's \<^verbatim>\<open>type\<close> column unless the handler overrides it), the error
  object with its \<^verbatim>\<open>type\<close> and \<^verbatim>\<open>message\<close>, or one of the two typing objects.
\<close>

datatype frame =
    MessageJson message
  | ErrorJson string string
  | TypingJson "int option" "int option" "bool option"
  | GroupTypingJson "int option" "int option" "bool option"



text \<open>
  The state of the relay: the \<^verbatim>\<open>clients\<close> map, the \<^verbatim>\<open>userId\<close> variable of each
  connection's closure, the ready state of each socket, and the database behind
  \<^verbatim>\<open>storage\<close>.
\<close>

record relay =
  clients :: "int \<rightharpoonup> socket"
  userId :: "socket \<rightharpoonup> int"
  readyStateOf :: "socket \<Rightarrow> readyState"
  storage :: database

text \<open>
  The \<^verbatim>\<open>message\<close> handler is asynchronous: it runs until its next \<^verbatim>\<open>await\<close> of a storage
  call and is resumed with the result, while the handlers of other frames and the
  \<^verbatim>\<open>close\<close> handlers run in between. A \<open>task\<close> is a handler suspended at an \<^verbatim>\<open>await\<close>,
  with the variables that the rest of the handler reads: the socket \<^verbatim>\<open>ws\<close> of the
  connection and the fields taken from the frame.
\<close>

datatype task =
    DirectCreate socket "int option" messageValues
  | GroupIsMember socket "int option" "int option" "string option"
  | GroupCreate socket "int option" "int option" messageValues
  | GroupMembers socket "int option" "int option" message
  | TypingIsMember socket "int option" "int option" "bool option"
  | TypingMembers socket "int option" "int option" "bool option"


text \<open>
  One step of the relay returns the new state, the frames it handed to \<^verbatim>\<open>send\<close>, in order,
  as (socket, frame) pairs, and the task at which the handler is suspended, if it is not
  at its end.
\<close>

type_synonym step = "relay \<times> (socket \<times> frame) list \<times> task option"

definition sent :: "step \<Rightarrow> (socket \<times> frame) list" where
  "sent r = fst (snd r)"


text \<open>
  \<^verbatim>\<open>if (message.fromUserId) { userId = message.fromUserId; clients.set(...) }\<close>:
  null, an absent field and the number 0 are falsy, so such a frame binds nothing.
\<close>

definition register :: "relay \<Rightarrow> socket \<Rightarrow> int option \<Rightarrow> relay" where
  "register st ws sender =
     (case sender of
        None \<Rightarrow> st
      | Some u \<Rightarrow>
          if u \<noteq> 0
          then st\<lparr>userId := (userId st)(ws \<mapsto> u), clients := (clients st)(u \<mapsto> ws)\<rparr>
          else st)"

text \<open>\<^verbatim>\<open>clients.get(id)\<close>: only numbers are keys of the map.\<close>

definition lookup :: "relay \<Rightarrow> int option \<Rightarrow> socket option" where
  "lookup st target = (case target of None \<Rightarrow> None | Some u \<Rightarrow> clients st u)"

text \<open>
  \<^verbatim>\<open>const s = clients.get(id); if (s?.readyState === WebSocket.OPEN) s.send(f)\<close>
\<close>

definition sendIfOpen :: "relay \<Rightarrow> int option \<Rightarrow> frame \<Rightarrow> (socket \<times> frame) list" where
  "sendIfOpen st target f =
     (case lookup st target of
        None \<Rightarrow> []
      | Some s \<Rightarrow> if readyStateOf st s = OPEN then [(s, f)] else [])"

text \<open>The loop over the group members, skipping the sender.\<close>

fun fanOut :: "relay \<Rightarrow> int option \<Rightarrow> frame \<Rightarrow> user list \<Rightarrow> (socket \<times> frame) list" where
  "fanOut st sender f [] = []"
| "fanOut st sender f (member # rest) =
     (if Some (user_id member) \<noteq> sender then sendIfOpen st (Some (user_id member)) f else [])
     @ fanOut st sender f rest"

definition notMemberError :: frame where
  "notMemberError = ErrorJson ''error'' ''You are not a member of this group''"

text \<open>The two objects that the handler passes to \<^verbatim>\<open>createMessage\<close>.\<close>

definition directMessageValues ::
  "int option \<Rightarrow> int option \<Rightarrow> string option \<Rightarrow> nat \<Rightarrow> messageValues" where
  "directMessageValues sender recipient body now =
     \<lparr>new_fromUserId = sender, new_toUserId = recipient, new_groupId = None,
      new_content = body, new_timestamp = now, new_isRead = False, new_readAt = None,
      new_type = ''text''\<rparr>"

definition groupMessageValues ::
  "int option \<Rightarrow> int option \<Rightarrow> string option \<Rightarrow> nat \<Rightarrow> messageValues" where
  "groupMessageValues sender g body now =
     \<lparr>new_fromUserId = sender, new_toUserId = None, new_groupId = g,
      new_content = body, new_timestamp = now, new_isRead = False, new_readAt = None,
      new_type = ''text''\<rparr>"

text \<open>The frame of a group message: \<^verbatim>\<open>{...newMessage, type: 'groupMessage'}\<close>.\<close>

definition groupMessageFrame :: "message \<Rightarrow> frame" where
  "groupMessageFrame newMessage = MessageJson (newMessage\<lparr>messageType := ''groupMessage''\<rparr>)"

text \<open>
  The \<^verbatim>\<open>message\<close> handler of a connection, from the arrival of a frame to its first
  \<^verbatim>\<open>await\<close>: \<open>ws\<close> is the socket the frame arrived on, \<open>now\<close> what \<^verbatim>\<open>new Date()\<close> reads.
  The direct typing branch has no \<^verbatim>\<open>await\<close> and runs to its end.
\<close>

fun onMessage :: "relay \<Rightarrow> socket \<Rightarrow> nat \<Rightarrow> WSMessage \<Rightarrow> step" where
  "onMessage st ws now (DirectChatMessage sender recipient body) =
     (register st ws sender, [],
      Some (DirectCreate ws recipient (directMessageValues sender recipient body now)))"
| "onMessage st ws now (GroupChatMessage sender g body) =
     (register st ws sender, [], Some (GroupIsMember ws sender g body))"
| "onMessage st ws now (TypingStatus sender recipient isTyping) =
     (let st1 = register st ws sender in
      (st1, sendIfOpen st1 recipient (TypingJson sender recipient isTyping), None))"
| "onMessage st ws now (GroupTypingStatus sender g isTyping) =
     (register st ws sender, [], Some (TypingIsMember ws sender g isTyping))"
| "onMessage st ws now (OtherMessage sender) = (register st ws sender, [], None)"

text \<open>
  The handler resumed at a task. The state \<open>st\<close> is any state the relay may have by
  then: it holds the database that the awaited storage call finds and the \<^verbatim>\<open>clients\<close> map
  and ready states that the code after the call finds, whatever other handlers did in
  between. \<open>now\<close> is what \<^verbatim>\<open>new Date()\<close> reads when the handler resumes. An exception of the storage call is caught by the \<^verbatim>\<open>try/catch\<close> of the handler,
  which logs it: nothing is sent and the handler ends.
\<close>

fun resume :: "relay \<Rightarrow> nat \<Rightarrow> task \<Rightarrow> step" where
  "resume st now (DirectCreate ws recipient v) =
     (case createMessage (storage st) v of
        (Inl e, db) \<Rightarrow> (st\<lparr>storage := db\<rparr>, [], None)
      | (Inr newMessage, db) \<Rightarrow>
          (st\<lparr>storage := db\<rparr>,
           sendIfOpen st recipient (MessageJson newMessage) @ [(ws, MessageJson newMessage)],
           None))"
| "resume st now (GroupIsMember ws sender g body) =
     (case isGroupMember (storage st) g sender of
        Inl e \<Rightarrow> (st, [], None)
      | Inr isMember \<Rightarrow>
          if \<not> isMember then (st, [(ws, notMemberError)], None)
          else (st, [], Some (GroupCreate ws sender g (groupMessageValues sender g body now))))"
| "resume st now (GroupCreate ws sender g v) =
     (case createMessage (storage st) v of
        (Inl e, db) \<Rightarrow> (st\<lparr>storage := db\<rparr>, [], None)
      | (Inr newMessage, db) \<Rightarrow>
          (st\<lparr>storage := db\<rparr>, [], Some (GroupMembers ws sender g newMessage)))"
| "resume st now (GroupMembers ws sender g newMessage) =
     (case getGroupMembers (storage st) g of
        Inl e \<Rightarrow> (st, [], None)
      | Inr members \<Rightarrow>
          (st, fanOut st sender (groupMessageFrame newMessage) members
               @ [(ws, groupMessageFrame newMessage)], None))"
| "resume st now (TypingIsMember ws sender g isTyping) =
     (case isGroupMember (storage st) g sender of
        Inl e \<Rightarrow> (st, [], None)
      | Inr isMember \<Rightarrow>
          if \<not> isMember then (st, [], None)
          else (st, [], Some (TypingMembers ws sender g isTyping)))"
| "resume st now (TypingMembers ws sender g isTyping) =
     (case getGroupMembers (storage st) g of
        Inl e \<Rightarrow> (st, [], None)
      | Inr members \<Rightarrow>
          (st, fanOut st sender (GroupTypingJson sender g isTyping) members, None))"

text \<open>The \<^verbatim>\<open>close\<close> handler: \<^verbatim>\<open>if (userId) clients.delete(userId)\<close>.\<close>

definition onClose :: "relay \<Rightarrow> socket \<Rightarrow> relay" where
  "onClose st ws =
     (case userId st ws of
        None \<Rightarrow> st
      | Some u \<Rightarrow> if u \<noteq> 0 then st\<lparr>clients := (clients st)(u := None)\<rparr> else st)"

text \<open>
  A frame handled without any other event in between: the handler is resumed at once,
  with the same clock reading, until it ends (it has at most three \<^verbatim>\<open>await\<close>s).
\<close>

fun proceed :: "step \<Rightarrow> nat \<Rightarrow> step" where
  "proceed (st, out, None) now = (st, out, None)"
| "proceed (st, out, Some k) now =
     (case resume st now k of (st', out', k') \<Rightarrow> (st', out @ out', k'))"

definition uninterrupted :: "relay \<Rightarrow> socket \<Rightarrow> nat \<Rightarrow> WSMessage \<Rightarrow> step" where
  "uninterrupted st ws now m =
     proceed (proceed (proceed (onMessage st ws now m) now) now) now"

text \<open>The frames that a socket is handed in one step.\<close>

definition framesTo :: "socket \<Rightarrow> (socket \<times> frame) list \<Rightarrow> frame list" where
  "framesTo s out = map snd (filter (\<lambda>p. fst p = s) out)"


text \<open>The rows that a step appended to the \<^verbatim>\<open>messages\<close> table.\<close>

definition newRows :: "relay \<Rightarrow> relay \<Rightarrow> message list" where
  "newRows st st' = drop (length (messages (storage st))) (messages (storage st'))"

definition exactlyOneTarget :: "message \<Rightarrow> bool" where
  "exactlyOneTarget m = ((toUserId m \<noteq> None) \<noteq> (groupId m \<noteq> None))"

text \<open>
  The client renders a message as an image when
  \<^verbatim>\<open>content.match(/!\[image\]\((.*?)\)/)\<close> finds a match: the text \<^verbatim>\<open>![image](\<close>
  somewhere in the content, followed on the same line by a closing parenthesis.
\<close>

fun closesOnLine :: "string \<Rightarrow> bool" where
  "closesOnLine [] = False"
| "closesOnLine (c # cs) =
     (if c = CHR '')'' then True
      else if c = CHR 0x0A \<or> c = CHR 0x0D then False
      else closesOnLine cs)"

fun imageMatch :: "string \<Rightarrow> bool" where
  "imageMatch [] = False"
| "imageMatch (c # cs) =
     ((take 9 (c # cs) = ''![image]('' \<and> closesOnLine (drop 9 (c # cs))) \<or> imageMatch cs)"


section \<open>Concrete states\<close>

text \<open>
  A database with four users, group 7 with the members 1, 2 and 3, and user 4 outside
  it; a relay over it with no connection bound yet and every socket open.
\<close>

definition exampleDb :: database where
  "exampleDb =
     \<lparr>users = [\<lparr>user_id = 1, username = ''ann''\<rparr>, \<lparr>user_id = 2, username = ''bob''\<rparr>,
               \<lparr>user_id = 3, username = ''cy''\<rparr>, \<lparr>user_id = 4, username = ''dee''\<rparr>],
      groups = [\<lparr>group_id = 7, groupName = ''squad'', ownerId = 1\<rparr>],
      groupMembers =
        [\<lparr>member_id = 1, member_groupId = 7, member_userId = 1, joinedAt = 100\<rparr>,
         \<lparr>member_id = 2, member_groupId = 7, member_userId = 2, joinedAt = 101\<rparr>,
         \<lparr>member_id = 3, member_groupId = 7, member_userId = 3, joinedAt = 102\<rparr>],
      messages = [], messages_id_seq = 1,
      ideas = [\<lparr>idea_id = 1, gameId = 1, idea_userId = 1, title = ''maps'',
                description = ''more maps'', votes = 0, createdAt = 50\<rparr>],
      ideaVotes = [], ideaVotes_id_seq = 1\<rparr>"

definition exampleRelay :: relay where
  "exampleRelay =
     \<lparr>clients = Map.empty, userId = Map.empty, readyStateOf = (\<lambda>s. OPEN),
      storage = exampleDb\<rparr>"

text \<open>
  Socket 10 binds user 1 and then socket 11 binds user 1 again (a reconnect), both by a
  typing frame.
\<close>

definition reconnected :: relay where
  "reconnected =
     fst (onMessage (fst (onMessage exampleRelay 10 1000 (TypingStatus (Some 1) (Some 2) (Some True))))
            11 1001 (TypingStatus (Some 1) (Some 2) (Some True)))"




text \<open>Users 1 and 3 are online on the sockets 10 and 30.\<close>

definition membersOnline :: relay where
  "membersOnline =
     fst (onMessage (fst (onMessage exampleRelay 10 1000 (TypingStatus (Some 1) (Some 2) (Some True))))
            30 1001 (TypingStatus (Some 3) (Some 2) (Some True)))"


section \<open>Authorization failures\<close>

lemma storage_register [simp]: "storage (register st ws sender) = storage st"
  by (simp add: register_def split: option.splits)

lemma readyStateOf_register [simp]: "readyStateOf (register st ws sender) = readyStateOf st"
  by (simp add: register_def split: option.splits)





text \<open>
  C7. A group-typing frame suspends the handler at the membership query without sending
  anything or touching the database. Unless the query, run in whatever state the relay
  has by then, reports that the sender is a member of the group, the frame is dropped:
  the handler sends no frame to any socket, the sender's included, leaves the state as it
  was and ends.
\<close>

theorem nonmember_group_typing_dropped:
  "onMessage st ws now (GroupTypingStatus sender g isTyping)
     = (register st ws sender, [], Some (TypingIsMember ws sender g isTyping))
   \<and> storage (register st ws sender) = storage st
   \<and> (isGroupMember (storage sb) g sender \<noteq> Inr True \<longrightarrow>
        resume sb tb (TypingIsMember ws sender g isTyping) = (sb, [], None))"
  by (auto split: sum.splits)

theorem nonmember_group_typing_dropped_witness:
  "isGroupMember (storage membersOnline) (Some 7) (Some 4) = Inr False
   \<and> clients membersOnline 1 = Some 10 \<and> clients membersOnline 3 = Some 30
   \<and> resume membersOnline 1002 (TypingIsMember 40 (Some 4) (Some 7) (Some True))
       = (membersOnline, [], None)
   \<and> sent (uninterrupted membersOnline 40 1002 (GroupTypingStatus (Some 4) (Some 7) (Some True)))
       = []"
proof -
  have db: "storage membersOnline = exampleDb"
    by (simp add: membersOnline_def exampleRelay_def Let_def)
  have h: "isGroupMember (storage membersOnline) (Some 7) (Some 4) = Inr False"
    unfolding db
    by (simp add: exampleDb_def isGroupMember_def isMembership_def int4Param_def int4_def)
  have c: "clients membersOnline 1 = Some 10 \<and> clients membersOnline 3 = Some 30"
    by (simp add: membersOnline_def exampleRelay_def register_def Let_def)
  have r: "resume membersOnline 1002 (TypingIsMember 40 (Some 4) (Some 7) (Some True))
             = (membersOnline, [], None)"
    using h nonmember_group_typing_dropped
      [of membersOnline 40 1002 "Some 4" "Some 7" "Some True" membersOnline 1002]
    by simp
  have r': "resume (register membersOnline 40 (Some 4)) 1002
              (TypingIsMember 40 (Some 4) (Some 7) (Some True))
             = (register membersOnline 40 (Some 4), [], None)"
    using h nonmember_group_typing_dropped
      [of membersOnline 40 1002 "Some 4" "Some 7" "Some True"
         "register membersOnline 40 (Some 4)" 1002]
    by simp
  have u: "sent (uninterrupted membersOnline 40 1002
                   (GroupTypingStatus (Some 4) (Some 7) (Some True))) = []"
    unfolding uninterrupted_def using r' by (simp add: sent_def del: resume.simps)
  show ?thesis using h c r u by simp
qed

section \<open>The connection registry\<close>



lemma clients_resume [simp]: "clients (fst (resume st now k)) = clients st"
  by (cases k) (simp_all split: sum.splits prod.splits)

text \<open>
  C4 (as the code has it). The specification says that a closing socket removes the registry
  entry only when the entry points at that socket. The handler has no such test: this is
  the reconnect of \<open>reconnected\<close>, where user 1 is registered on the newer socket 11
  and the close of the older socket 10 deletes that registration.
\<close>

theorem close_deletes_newer_registration:
  "clients reconnected 1 = Some 11 \<and> userId reconnected 10 = Some 1
   \<and> clients (onClose reconnected 10) 1 = None"
  by (simp add: reconnected_def exampleRelay_def onClose_def register_def Let_def)

text \<open>
  C4, amended. When a socket closes, the registry entry of the user id that the socket
  last bound is removed, whichever socket the entry points at; the entries of all other
  user ids stay, and a socket that bound no user id removes nothing.
\<close>

theorem close_deletes_bound_user:
  "(userId st ws = Some u \<and> u \<noteq> 0 \<longrightarrow> clients (onClose st ws) = (clients st)(u := None))
   \<and> (userId st ws = None \<longrightarrow> onClose st ws = st)"
  by (simp add: onClose_def)

theorem close_deletes_bound_user_witness:
  "userId reconnected 11 = Some 1 \<and> clients reconnected 1 = Some 11
   \<and> clients (onClose reconnected 11) 1 = None
   \<and> userId reconnected 12 = None \<and> clients (onClose reconnected 12) 1 = Some 11"
proof -
  have b: "userId reconnected 11 = Some 1" and c: "clients reconnected 1 = Some 11"
    and n: "userId reconnected 12 = None"
    by (simp_all add: reconnected_def exampleRelay_def register_def Let_def)
  show ?thesis
    using b c n close_deletes_bound_user [of reconnected 11 1]
      close_deletes_bound_user [of reconnected 12 0]
    by simp
qed

lemma framesTo_append [simp]: "framesTo s (xs @ ys) = framesTo s xs @ framesTo s ys"
  by (simp add: framesTo_def)

lemma framesTo_Nil [simp]: "framesTo s [] = []"
  by (simp add: framesTo_def)

lemma framesTo_single [simp]: "framesTo s [(t, f)] = (if t = s then [f] else [])"
  by (simp add: framesTo_def)











section \<open>Persisting a message\<close>

lemma createMessage_success:
  assumes "new_fromUserId v = Some s" and "new_content v = Some c"
    and "int4 s" and "int4Param (new_toUserId v)" and "int4Param (new_groupId v)"
    and "messageReferencesOk db s (new_toUserId v) (new_groupId v)"
  shows "createMessage db v =
           (Inr \<lparr>message_id = messages_id_seq db, fromUserId = s,
                 toUserId = new_toUserId v, groupId = new_groupId v, content = c,
                 timestamp = new_timestamp v, isRead = new_isRead v,
                 readAt = new_readAt v, messageType = new_type v\<rparr>,
            db\<lparr>messages := messages db @
                   [\<lparr>message_id = messages_id_seq db, fromUserId = s,
                     toUserId = new_toUserId v, groupId = new_groupId v, content = c,
                     timestamp = new_timestamp v, isRead = new_isRead v,
                     readAt = new_readAt v, messageType = new_type v\<rparr>],
               messages_id_seq := messages_id_seq db + 1\<rparr>)"
  using assms by (simp add: createMessage_def int4Param_def Let_def)

lemma createMessage_row:
  assumes "createMessage db v = (Inr row, db')"
  shows "messageType row = new_type v \<and> Some (content row) = new_content v
         \<and> toUserId row = new_toUserId v \<and> groupId row = new_groupId v
         \<and> Some (fromUserId row) = new_fromUserId v \<and> timestamp row = new_timestamp v
         \<and> message_id row = messages_id_seq db
         \<and> messages db' = messages db @ [row]"
  using assms
  by (auto simp add: createMessage_def Let_def split: if_splits option.splits)

lemma createMessage_failure:
  "createMessage db v = (Inl e, db') \<Longrightarrow> messages db' = messages db"
  by (auto simp add: createMessage_def Let_def split: if_splits option.splits)

lemma users_createMessage [simp]: "users (snd (createMessage db v)) = users db"
  by (auto simp add: createMessage_def Let_def split: if_splits option.splits)

lemma newRows_append [simp]:
  "messages (storage st') = messages (storage st) @ rows \<Longrightarrow> newRows st st' = rows"
  by (simp add: newRows_def)

lemma newRows_same [simp]:
  "messages (storage st') = messages (storage st) \<Longrightarrow> newRows st st' = []"
  by (simp add: newRows_def)

lemma newRows_DirectCreate:
  "newRows st (fst (resume st now (DirectCreate ws recipient v)))
     = (case fst (createMessage (storage st) v) of Inl e \<Rightarrow> [] | Inr row \<Rightarrow> [row])"
proof (cases "createMessage (storage st) v")
  case (Pair r db)
  then show ?thesis
  proof (cases r)
    case (Inl e)
    with Pair show ?thesis by (simp add: createMessage_failure)
  next
    case (Inr row)
    with Pair show ?thesis using createMessage_row [of "storage st" v row db] by simp
  qed
qed

lemma direct_insert:
  assumes "int4 u" and "int4 v" and "userExists db u" and "userExists db v"
  shows "createMessage db (directMessageValues (Some u) (Some v) (Some line) now) =
           (Inr \<lparr>message_id = messages_id_seq db, fromUserId = u, toUserId = Some v,
                 groupId = None, content = line, timestamp = now, isRead = False,
                 readAt = None, messageType = ''text''\<rparr>,
            db\<lparr>messages := messages db @
                   [\<lparr>message_id = messages_id_seq db, fromUserId = u, toUserId = Some v,
                     groupId = None, content = line, timestamp = now, isRead = False,
                     readAt = None, messageType = ''text''\<rparr>],
               messages_id_seq := messages_id_seq db + 1\<rparr>)"
proof -
  let ?v = "directMessageValues (Some u) (Some v) (Some line) now"
  have "createMessage db ?v = (Inr \<lparr>message_id = messages_id_seq db, fromUserId = u,
                 toUserId = new_toUserId ?v, groupId = new_groupId ?v, content = line,
                 timestamp = new_timestamp ?v, isRead = new_isRead ?v,
                 readAt = new_readAt ?v, messageType = new_type ?v\<rparr>,
            db\<lparr>messages := messages db @
                   [\<lparr>message_id = messages_id_seq db, fromUserId = u,
                     toUserId = new_toUserId ?v, groupId = new_groupId ?v, content = line,
                     timestamp = new_timestamp ?v, isRead = new_isRead ?v,
                     readAt = new_readAt ?v, messageType = new_type ?v\<rparr>],
               messages_id_seq := messages_id_seq db + 1\<rparr>)"
    using assms
    by (intro createMessage_success)
      (simp_all add: directMessageValues_def int4Param_def messageReferencesOk_def)
  then show ?thesis by (simp add: directMessageValues_def)
qed

text \<open>
  C6. Every Message row that the relay creates is to have exactly one of recipient and
  group set, as the validation of \<^verbatim>\<open>insertMessageSchema\<close> in the schema demands
  ("Either toUserId or groupId must be provided, but not both"). The relay never applies
  that validation to a frame: the direct-message frame of user 1 with \<^verbatim>\<open>toUserId: null\<close>
  reaches \<^verbatim>\<open>createMessage\<close> with both fields null, both columns are nullable, and the row
  is stored with neither a recipient nor a group.
\<close>

theorem null_recipient_row_has_no_target:
  "map (\<lambda>row. (fromUserId row, toUserId row, groupId row, content row))
     (newRows exampleRelay
        (fst (uninterrupted exampleRelay 10 1000 (DirectChatMessage (Some 1) None (Some ''x'')))))
     = [(1, None, None, ''x'')]
   \<and> \<not> list_all exactlyOneTarget
         (newRows exampleRelay
            (fst (uninterrupted exampleRelay 10 1000
                    (DirectChatMessage (Some 1) None (Some ''x'')))))"
  by (simp add: uninterrupted_def exampleRelay_def exampleDb_def register_def newRows_def
      directMessageValues_def createMessage_def messageReferencesOk_def userExists_def
      int4Param_def int4_def Let_def exactlyOneTarget_def)

section \<open>Direct messages\<close>

text \<open>
  C8 (as the code has it). The specification says that a direct message whose content
  matches the image-markdown pattern is persisted with an image content-type. User 1 sends
  the content that the client produces for an uploaded image; it matches the pattern and
  the row is persisted with the type "text".
\<close>

theorem image_markdown_persisted_as_text:
  "imageMatch ''![image](/uploads/cat.png)''
   \<and> map messageType
         (newRows exampleRelay
            (fst (uninterrupted exampleRelay 10 1000
                    (DirectChatMessage (Some 1) (Some 2) (Some ''![image](/uploads/cat.png)'')))))
       = [''text'']"
  by (simp add: uninterrupted_def exampleRelay_def exampleDb_def register_def newRows_def
      directMessageValues_def createMessage_def messageReferencesOk_def userExists_def
      int4Param_def int4_def Let_def)

text \<open>
  C8, amended. A direct-message frame suspends the handler at the insert of the values
  built from the frame, with the content-type "text". Whenever the insert runs, every row
  that it persists has the content-type "text", whatever its content; a send between two
  existing users persists exactly one row, with the content sent.
\<close>

theorem direct_row_type_is_text:
  "onMessage st ws now (DirectChatMessage sender recipient body)
     = (register st ws sender, [],
        Some (DirectCreate ws recipient (directMessageValues sender recipient body now)))
   \<and> list_all (\<lambda>row. messageType row = ''text'')
        (newRows sb (fst (resume sb tb
           (DirectCreate ws recipient (directMessageValues sender recipient body now)))))
   \<and> (int4 u \<and> int4 v \<and> userExists (storage sb) u \<and> userExists (storage sb) v \<longrightarrow>
        map (\<lambda>row. (messageType row, content row))
          (newRows sb (fst (resume sb tb
             (DirectCreate ws (Some v) (directMessageValues (Some u) (Some v) (Some line) now)))))
        = [(''text'', line)])"
proof -
  let ?v = "directMessageValues sender recipient body now"
  have "list_all (\<lambda>row. messageType row = ''text'')
          (newRows sb (fst (resume sb tb (DirectCreate ws recipient ?v))))"
  proof (cases "createMessage (storage sb) ?v")
    case (Pair r db)
    then show ?thesis
    proof (cases r)
      case (Inl e)
      with Pair show ?thesis by (simp add: newRows_DirectCreate del: resume.simps)
    next
      case (Inr row)
      with Pair createMessage_row [of "storage sb" ?v row db]
      show ?thesis by (simp add: newRows_DirectCreate directMessageValues_def del: resume.simps)
    qed
  qed
  moreover have "map (\<lambda>row. (messageType row, content row))
          (newRows sb (fst (resume sb tb
             (DirectCreate ws (Some v) (directMessageValues (Some u) (Some v) (Some line) now)))))
        = [(''text'', line)]"
    if "int4 u" "int4 v" "userExists (storage sb) u" "userExists (storage sb) v"
    using direct_insert [OF that, of line now] by (simp add: newRows_DirectCreate del: resume.simps)
  ultimately show ?thesis by simp
qed

theorem direct_row_type_is_text_witness:
  "int4 1 \<and> int4 2 \<and> userExists (storage exampleRelay) 1 \<and> userExists (storage exampleRelay) 2
   \<and> map (\<lambda>row. (messageType row, content row))
        (newRows exampleRelay (fst (resume exampleRelay 1000
           (DirectCreate 10 (Some 2)
              (directMessageValues (Some 1) (Some 2) (Some ''![image](/uploads/cat.png)'') 1000)))))
      = [(''text'', ''![image](/uploads/cat.png)'')]"
proof -
  have u: "int4 1 \<and> int4 2 \<and> userExists (storage exampleRelay) 1
           \<and> userExists (storage exampleRelay) 2"
    by (simp add: exampleRelay_def exampleDb_def userExists_def int4_def)
  show ?thesis
    using u direct_row_type_is_text
      [where sb = exampleRelay and tb = 1000 and ws = 10 and u = 1 and v = 2 and now = 1000
         and line = "''![image](/uploads/cat.png)''"]
    by simp
qed







section \<open>The vote toggle\<close>













section \<open>Group messages\<close>












end
